theory Spec2Isabelle
  imports Complex_Main
begin

section \<open>Python values at the boundary with the backend client\<close>

text \<open>
  The gateway of \<^verbatim>\<open>src/api_server.py\<close> receives from \<^verbatim>\<open>client.chat\<close> a value whose
  type it does not control, and inspects it with \<^verbatim>\<open>isinstance\<close>, \<^verbatim>\<open>hasattr\<close>,
  \<^verbatim>\<open>in\<close>, \<^verbatim>\<open>len\<close>, indexing and \<^verbatim>\<open>str\<close>. The universe of such values is modelled by
  \<open>pyval\<close>: \<^verbatim>\<open>None\<close>, booleans, unbounded integers, strings, lists, tuples, dicts
  (association lists in insertion order) and instances of user-defined classes. An instance carries
  the name of its class, the value of the builtin type it derives from (if its class
  derives from \<^verbatim>\<open>str\<close>, \<^verbatim>\<open>list\<close> or \<^verbatim>\<open>dict\<close>), the data attributes that attribute
  lookup finds on it, and the texts that \<^verbatim>\<open>str()\<close> and \<^verbatim>\<open>repr()\<close> return for it.
  The same datatype is used for the JSON-like dicts that the server builds itself.

  Strings are lists of 8-bit characters, read as the code points 0 to 255. Floats,
  callables, classes that override the container protocol or comparison, and instances
  whose attribute lookup, \<^verbatim>\<open>__str__\<close> or \<^verbatim>\<open>__repr__\<close> raises are outside the model.
\<close>

datatype pyval =
    PNone
  | PBool bool
  | PInt int
  | PStr string
  | PList "pyval list"
  | PTuple "pyval list"
  | PDict "(pyval \<times> pyval) list"
  | PObj (cls: string) (base: "pyval option") (attrs: "(string \<times> pyval) list")
         (str_text: string) (repr_text: string)

text \<open>Exceptions, each with the text that \<^verbatim>\<open>str(e)\<close> gives.\<close>

datatype exn =
    AttributeError string
  | KeyError string
  | IndexError string
  | TypeError string
  | ValueError string
  | RecursionError string
  | ValidationError string
  | BackendError string

fun exn_str :: "exn \<Rightarrow> string" where
  "exn_str (AttributeError m) = m"
| "exn_str (KeyError m) = m"
| "exn_str (IndexError m) = m"
| "exn_str (TypeError m) = m"
| "exn_str (ValueError m) = m"
| "exn_str (RecursionError m) = m"
| "exn_str (ValidationError m) = m"
| "exn_str (BackendError m) = m"

subsection \<open>Type tests, attributes, containers\<close>

text \<open>The builtin value an instance is built on: the instance itself when its class
  derives from \<^verbatim>\<open>object\<close> only.\<close>

fun builtin_of :: "pyval \<Rightarrow> pyval" where
  "builtin_of (PObj c (Some b) a s r) = builtin_of b"
| "builtin_of v = v"

definition isinstance_str :: "pyval \<Rightarrow> bool" where
  "isinstance_str v = (case builtin_of v of PStr s \<Rightarrow> True | _ \<Rightarrow> False)"

definition isinstance_dict :: "pyval \<Rightarrow> bool" where
  "isinstance_dict v = (case builtin_of v of PDict kvs \<Rightarrow> True | _ \<Rightarrow> False)"

definition isinstance_list :: "pyval \<Rightarrow> bool" where
  "isinstance_list v = (case builtin_of v of PList xs \<Rightarrow> True | _ \<Rightarrow> False)"

fun type_name :: "pyval \<Rightarrow> string" where
  "type_name PNone = ''NoneType''"
| "type_name (PBool b) = ''bool''"
| "type_name (PInt i) = ''int''"
| "type_name (PStr s) = ''str''"
| "type_name (PList xs) = ''list''"
| "type_name (PTuple xs) = ''tuple''"
| "type_name (PDict kvs) = ''dict''"
| "type_name (PObj c b a s r) = c"

text \<open>Attribute lookup for data attributes: the instance's own attributes first, then
  those of the value it is built on. The builtin types have methods only, none of them
  named \<^verbatim>\<open>content\<close>.\<close>

fun find_attr :: "pyval \<Rightarrow> string \<Rightarrow> pyval option" where
  "find_attr (PObj c b a s r) name =
     (case map_of a name of
        Some v \<Rightarrow> Some v
      | None \<Rightarrow> (case b of Some b' \<Rightarrow> find_attr b' name | None \<Rightarrow> None))"
| "find_attr v name = None"

definition hasattr :: "pyval \<Rightarrow> string \<Rightarrow> bool" where
  "hasattr v name = (find_attr v name \<noteq> None)"

definition getattr :: "pyval \<Rightarrow> string \<Rightarrow> exn + pyval" where
  "getattr v name =
     (case find_attr v name of
        Some x \<Rightarrow> Inr x
      | None \<Rightarrow> Inl (AttributeError
          ([CHR 0x27] @ type_name v @ [CHR 0x27] @ '' object has no attribute ''
            @ [CHR 0x27] @ name @ [CHR 0x27])))"

text \<open>\<^verbatim>\<open>len(v)\<close> and \<^verbatim>\<open>bool(v)\<close>. \<open>py_len\<close> is 0 where Python raises TypeError; the
  source calls it behind an \<^verbatim>\<open>isinstance(_, list)\<close> test only.\<close>

definition py_len :: "pyval \<Rightarrow> nat" where
  "py_len v = (case builtin_of v of
      PStr s \<Rightarrow> length s | PList xs \<Rightarrow> length xs | PTuple xs \<Rightarrow> length xs
    | PDict kvs \<Rightarrow> length kvs | _ \<Rightarrow> 0)"

definition truthy :: "pyval \<Rightarrow> bool" where
  "truthy v = (case builtin_of v of
      PNone \<Rightarrow> False
    | PBool b \<Rightarrow> b
    | PInt i \<Rightarrow> i \<noteq> 0
    | PStr s \<Rightarrow> s \<noteq> []
    | PList xs \<Rightarrow> xs \<noteq> []
    | PTuple xs \<Rightarrow> xs \<noteq> []
    | PDict kvs \<Rightarrow> kvs \<noteq> []
    | PObj c b a s r \<Rightarrow> True)"

subsection \<open>Textual representation: \<^verbatim>\<open>str\<close> and \<^verbatim>\<open>repr\<close>\<close>

text \<open>\<^verbatim>\<open>sep.join(xs)\<close>.\<close>

fun join :: "string \<Rightarrow> string list \<Rightarrow> string" where
  "join sep [] = []"
| "join sep [x] = x"
| "join sep (x # y # ys) = x @ sep @ join sep (y # ys)"

text \<open>Decimal digits of an integer, as \<^verbatim>\<open>str(int)\<close> prints them.\<close>

definition digit_char :: "nat \<Rightarrow> char" where
  "digit_char d = ''0123456789abcdef'' ! d"

function show_nat :: "nat \<Rightarrow> string" where
  "show_nat n = (if n < 10 then [digit_char n] else show_nat (n div 10) @ [digit_char (n mod 10)])"
  by pat_completeness auto
termination
  by (relation "measure id") auto

declare show_nat.simps [simp del]

definition show_int :: "int \<Rightarrow> string" where
  "show_int i = (if i < 0 then CHR ''-'' # show_nat (nat (- i)) else show_nat (nat i))"

text \<open>\<^verbatim>\<open>repr\<close> of a string: single quotes unless the string has a single quote and no
  double quote; the quote and the backslash are escaped, tab, newline and carriage return
  are written \<^verbatim>\<open>\t\<close>, \<^verbatim>\<open>\n\<close>, \<^verbatim>\<open>\r\<close>, and every other code point that is not
  printable is written as a two-digit hexadecimal escape.\<close>

definition str_quote :: "string \<Rightarrow> char" where
  "str_quote s = (if CHR 0x27 \<in> set s \<and> CHR 0x22 \<notin> set s then CHR 0x22 else CHR 0x27)"

definition repr_char :: "char \<Rightarrow> char \<Rightarrow> string" where
  "repr_char q c =
     (let n = (of_char c :: nat) in
      if c = q \<or> c = CHR 0x5C then [CHR 0x5C, c]
      else if c = CHR 0x09 then [CHR 0x5C, CHR ''t'']
      else if c = CHR 0x0A then [CHR 0x5C, CHR ''n'']
      else if c = CHR 0x0D then [CHR 0x5C, CHR ''r'']
      else if n < 32 \<or> n = 127 \<or> (128 \<le> n \<and> n \<le> 160) \<or> n = 173
        then [CHR 0x5C, CHR ''x'', digit_char (n div 16), digit_char (n mod 16)]
      else [c])"

definition str_repr :: "string \<Rightarrow> string" where
  "str_repr s = (let q = str_quote s in [q] @ concat (map (repr_char q) s) @ [q])"

fun py_repr :: "pyval \<Rightarrow> string" where
  "py_repr PNone = ''None''"
| "py_repr (PBool b) = (if b then ''True'' else ''False'')"
| "py_repr (PInt i) = show_int i"
| "py_repr (PStr s) = str_repr s"
| "py_repr (PList xs) = ''['' @ join '', '' (map py_repr xs) @ '']''"
| "py_repr (PTuple xs) =
     ''('' @ join '', '' (map py_repr xs) @ (if length xs = 1 then '',)'' else '')'')"
| "py_repr (PDict kvs) =
     ''{'' @ join '', '' (map (\<lambda>(k, v). py_repr k @ '': '' @ py_repr v) kvs) @ ''}''"
| "py_repr (PObj c b a s r) = r"

text \<open>The text that \<^verbatim>\<open>str(v)\<close> returns, when it returns.\<close>

fun py_str :: "pyval \<Rightarrow> string" where
  "py_str (PStr s) = s"
| "py_str (PObj c b a s r) = s"
| "py_str v = py_repr v"

text \<open>
  \<^verbatim>\<open>str\<close> and \<^verbatim>\<open>repr\<close> raise on two kinds of builtin value. Converting an integer
  of more than \<^verbatim>\<open>sys.get_int_max_str_digits()\<close> decimal digits raises ValueError, unless
  that limit is 0. Every object that \<^verbatim>\<open>repr\<close> enters inside a list, tuple or dict costs
  one level of the interpreter's recursion depth, and entering an object when none is
  left raises RecursionError. Neither the limit (0, or at least 640) nor the depth that
  is left when the server calls \<^verbatim>\<open>str\<close> can be read off the source, so both are
  parameters.
\<close>

record interpreter =
  int_max_str_digits :: nat
  repr_depth :: nat

definition too_many_digits :: "interpreter \<Rightarrow> int \<Rightarrow> bool" where
  "too_many_digits py i = (0 < int_max_str_digits py \<and> 10 ^ int_max_str_digits py \<le> \<bar>i\<bar>)"

definition digits_error :: "interpreter \<Rightarrow> exn" where
  "digits_error py = ValueError
     (''Exceeds the limit ('' @ show_nat (int_max_str_digits py)
       @ '' digits) for integer string conversion; ''
       @ ''use sys.set_int_max_str_digits() to increase the limit'')"

definition recursion_error :: exn where
  "recursion_error =
     RecursionError ''maximum recursion depth exceeded while getting the repr of an object''"

text \<open>The first exception in a sequence of outcomes, taken from left to right.\<close>

fun first_raised :: "exn option list \<Rightarrow> exn option" where
  "first_raised [] = None"
| "first_raised (Some e # rest) = Some e"
| "first_raised (None # rest) = first_raised rest"

text \<open>The exception that \<^verbatim>\<open>repr(v)\<close> raises, if any, when \<open>depth\<close> further levels
  can be entered: the elements are visited in order, a dict's key before its value.\<close>

fun repr_raises :: "interpreter \<Rightarrow> nat \<Rightarrow> pyval \<Rightarrow> exn option" where
  "repr_raises py depth (PInt i) = (if too_many_digits py i then Some (digits_error py) else None)"
| "repr_raises py depth (PList xs) =
     first_raised (map (\<lambda>x. case depth of
                               0 \<Rightarrow> Some recursion_error
                             | Suc d \<Rightarrow> repr_raises py d x) xs)"
| "repr_raises py depth (PTuple xs) =
     first_raised (map (\<lambda>x. case depth of
                               0 \<Rightarrow> Some recursion_error
                             | Suc d \<Rightarrow> repr_raises py d x) xs)"
| "repr_raises py depth (PDict kvs) =
     first_raised (concat (map (\<lambda>(k, v).
        [case depth of 0 \<Rightarrow> Some recursion_error | Suc d \<Rightarrow> repr_raises py d k,
         case depth of 0 \<Rightarrow> Some recursion_error | Suc d \<Rightarrow> repr_raises py d v]) kvs))"
| "repr_raises py depth v = None"

text \<open>The exception that \<^verbatim>\<open>str(v)\<close> raises, if any, and the call \<^verbatim>\<open>str(v)\<close> itself. A
  string is returned as it is and an instance gives its own text; every other value is
  converted by \<^verbatim>\<open>repr\<close>.\<close>

fun str_raises :: "interpreter \<Rightarrow> pyval \<Rightarrow> exn option" where
  "str_raises py (PStr s) = None"
| "str_raises py (PObj c b a s r) = None"
| "str_raises py v = repr_raises py (repr_depth py) v"

definition str_call :: "interpreter \<Rightarrow> pyval \<Rightarrow> exn + string" where
  "str_call py v = (case str_raises py v of Some e \<Rightarrow> Inl e | None \<Rightarrow> Inr (py_str v))"

text \<open>
  \<^verbatim>\<open>name in d\<close> and \<^verbatim>\<open>d[name]\<close> on a dict, for a string \<open>name\<close>. A dict finds a key
  by hash and equality: the key that equals the string \<open>name\<close> is a string with the
  same characters, an instance of a subclass of \<^verbatim>\<open>str\<close> included.
\<close>

definition key_equals :: "pyval \<Rightarrow> string \<Rightarrow> bool" where
  "key_equals k name = (case builtin_of k of PStr s \<Rightarrow> s = name | _ \<Rightarrow> False)"

definition dict_find :: "(pyval \<times> pyval) list \<Rightarrow> string \<Rightarrow> pyval option" where
  "dict_find kvs name = map_option snd (List.find (\<lambda>kv. key_equals (fst kv) name) kvs)"

definition dict_contains :: "pyval \<Rightarrow> string \<Rightarrow> bool" where
  "dict_contains d name =
     (case builtin_of d of PDict kvs \<Rightarrow> dict_find kvs name \<noteq> None | _ \<Rightarrow> False)"

definition dict_getitem :: "pyval \<Rightarrow> string \<Rightarrow> exn + pyval" where
  "dict_getitem d name =
     (case builtin_of d of
        PDict kvs \<Rightarrow> (case dict_find kvs name of
                        Some v \<Rightarrow> Inr v
                      | None \<Rightarrow> Inl (KeyError (str_repr name)))
      | _ \<Rightarrow> Inl (TypeError ([CHR 0x27] @ type_name d @ [CHR 0x27]
                                @ '' object is not subscriptable'')))"

text \<open>\<^verbatim>\<open>xs[i]\<close> on a list, for \<open>i \<ge> 0\<close>.\<close>

definition list_getitem :: "pyval \<Rightarrow> nat \<Rightarrow> exn + pyval" where
  "list_getitem v i =
     (case builtin_of v of
        PList xs \<Rightarrow> (if i < length xs then Inr (xs ! i)
                      else Inl (IndexError ''list index out of range''))
      | _ \<Rightarrow> Inl (TypeError ([CHR 0x27] @ type_name v @ [CHR 0x27]
                                @ '' object is not subscriptable'')))"

section \<open>Response normalisation\<close>

text \<open>
  Lines 60 to 69 of \<^verbatim>\<open>generate_stream_response\<close> and lines 160 to 169 of
  \<^verbatim>\<open>chat_completions\<close> are the same chain of tests on \<^verbatim>\<open>raw_response\<close>:
  \<^verbatim>\<open>
  if isinstance(raw_response, str):
      response = raw_response
  elif hasattr(raw_response, 'content'):
      response = raw_response.content
  elif isinstance(raw_response, dict) and 'content' in raw_response:
      response = raw_response['content']
  elif isinstance(raw_response, list) and len(raw_response) > 0:
      response = str(raw_response[0]) if raw_response else "No response"
  else:
      response = str(raw_response)
  \<close>
  Attribute access, indexing and \<^verbatim>\<open>str\<close> can raise, so the chain returns an exception
  or a value.
\<close>

definition normalize_response :: "interpreter \<Rightarrow> pyval \<Rightarrow> exn + pyval" where
  "normalize_response py raw_response =
     (if isinstance_str raw_response then Inr raw_response
      else if hasattr raw_response ''content'' then getattr raw_response ''content''
      else if isinstance_dict raw_response \<and> dict_contains raw_response ''content''
        then dict_getitem raw_response ''content''
      else if isinstance_list raw_response \<and> 0 < py_len raw_response then
        (if truthy raw_response
         then (case list_getitem raw_response 0 of
                 Inl e \<Rightarrow> Inl e
               | Inr x \<Rightarrow> (case str_call py x of
                            Inl e \<Rightarrow> Inl e
                          | Inr t \<Rightarrow> Inr (PStr t)))
         else Inr (PStr ''No response''))
      else (case str_call py raw_response of
              Inl e \<Rightarrow> Inl e
            | Inr t \<Rightarrow> Inr (PStr t)))"

text \<open>
  The five steps of the specification's Response Normalizer, written from its words and
  without any failing operation: a string as it is; else the value of the \<^verbatim>\<open>content\<close>
  attribute; else the value at the key \<^verbatim>\<open>content\<close> of a dict; else the text of the
  first element of a non-empty list; else the text of the whole value.
\<close>

definition content_attribute :: "pyval \<Rightarrow> pyval option" where
  "content_attribute v = find_attr v ''content''"

definition content_key :: "pyval \<Rightarrow> pyval option" where
  "content_key v = (case builtin_of v of PDict kvs \<Rightarrow> dict_find kvs ''content'' | _ \<Rightarrow> None)"

definition first_element :: "pyval \<Rightarrow> pyval option" where
  "first_element v = (case builtin_of v of PList (x # xs) \<Rightarrow> Some x | _ \<Rightarrow> None)"

definition normalizer_steps :: "pyval \<Rightarrow> pyval" where
  "normalizer_steps v =
     (if isinstance_str v then v
      else case content_attribute v of Some c \<Rightarrow> c | None \<Rightarrow>
        (case content_key v of Some c \<Rightarrow> c | None \<Rightarrow>
          (case first_element v of Some x \<Rightarrow> PStr (py_str x) | None \<Rightarrow> PStr (py_str v))))"

section \<open>Requests, the client cache and the backend\<close>

text \<open>The pydantic models \<^verbatim>\<open>Message\<close>, \<^verbatim>\<open>ChatRequest\<close> and \<^verbatim>\<open>ChatResponse\<close>. An
  \<^verbatim>\<open>Optional[str]\<close> is a \<open>string option\<close>. In \<^verbatim>\<open>ChatResponse\<close> the field \<^verbatim>\<open>choices\<close>
  is a list of dicts with values of any type.\<close>

record Message =
  role :: string
  content :: string

record ChatRequest =
  req_messages :: "Message list"
  req_system :: "string option"
  req_model :: "string option"
  req_stream :: bool
  req_max_tokens :: "int option"
  req_temperature :: "real option"

record ChatResponse =
  resp_id :: string
  resp_object :: string
  resp_created :: int
  resp_model :: string
  resp_choices :: "pyval list"

text \<open>
  A \<^verbatim>\<open>ChatOllama\<close> object is known by its identity and by the model name it was
  constructed for. What lies outside the server is a parameter of the model: whether
  \<^verbatim>\<open>ChatOllama(model=m)\<close> raises, what \<^verbatim>\<open>client.chat(prompt)\<close> returns or raises, the
  text of pydantic's validation error, and the limits of the interpreter.
\<close>

datatype handle = Handle (ident: nat) (bound_model: "string option")

record environment =
  ChatOllama_raises :: "string option \<Rightarrow> exn option"
  chat_result :: "handle \<Rightarrow> string \<Rightarrow> exn + pyval"
  pydantic_message :: string
  python :: interpreter

text \<open>The module's globals \<^verbatim>\<open>chat_client\<close> and \<^verbatim>\<open>current_model\<close>, both \<^verbatim>\<open>None\<close> at
  start, and the number of \<^verbatim>\<open>ChatOllama\<close> objects constructed so far, which gives every
  new object its identity.\<close>

record server_state =
  chat_client :: "handle option"
  current_model :: "string option"
  constructed :: nat

definition initial_state :: server_state where
  "initial_state = \<lparr>chat_client = None, current_model = None, constructed = 0\<rparr>"

definition ChatOllama :: "environment \<Rightarrow> string option \<Rightarrow> server_state \<Rightarrow> exn + (handle \<times> server_state)" where
  "ChatOllama env m st =
     (case ChatOllama_raises env m of
        Some e \<Rightarrow> Inl e
      | None \<Rightarrow> Inr (Handle (constructed st) m, st\<lparr>constructed := constructed st + 1\<rparr>))"

text \<open>
  \<^verbatim>\<open>
  def get_chat_client(model: str = "phi4:latest"):
      global chat_client, current_model
      if chat_client is None or current_model != model:
          chat_client = ChatOllama(model=model)
          current_model = model
      return chat_client
  \<close>
\<close>

definition replace_client :: "environment \<Rightarrow> string option \<Rightarrow> server_state \<Rightarrow> exn + (handle \<times> server_state)" where
  \<comment> \<open>the two assignments of lines 37 and 38, and the \<^verbatim>\<open>return\<close> after them\<close>
  "replace_client env m st =
     (case ChatOllama env m st of
        Inl e \<Rightarrow> Inl e
      | Inr (h, st') \<Rightarrow> Inr (h, st'\<lparr>chat_client := Some h, current_model := m\<rparr>))"

definition get_chat_client :: "environment \<Rightarrow> string option \<Rightarrow> server_state \<Rightarrow> exn + (handle \<times> server_state)" where
  "get_chat_client env m st =
     (case chat_client st of
        None \<Rightarrow> replace_client env m st
      | Some h \<Rightarrow> if current_model st \<noteq> m then replace_client env m st else Inr (h, st))"

section \<open>Prompt assembly\<close>

text \<open>
  Lines 46 to 53 and lines 145 to 152 are the same statements:
  \<^verbatim>\<open>
  user_messages = [msg.content for msg in messages if msg.role == "user"]
  user_message = user_messages[-1] if user_messages else ""
  if system and user_message:
      user_message = f"{system}\n\nUser: {user_message}\n\nAssistant:"
  elif system:
      user_message = system
  \<close>
  A \<^verbatim>\<open>None\<close> and an empty string are both false in a condition.
\<close>

definition opt_truthy :: "string option \<Rightarrow> bool" where
  "opt_truthy s = (case s of None \<Rightarrow> False | Some t \<Rightarrow> t \<noteq> [])"

definition opt_text :: "string option \<Rightarrow> string" where
  "opt_text s = (case s of None \<Rightarrow> ''None'' | Some t \<Rightarrow> t)"

definition assemble_prompt :: "Message list \<Rightarrow> string option \<Rightarrow> string" where
  "assemble_prompt messages system =
     (let user_messages = map content (filter (\<lambda>msg. role msg = ''user'') messages);
          user_message = (if user_messages \<noteq> [] then last user_messages else [])
      in if opt_truthy system \<and> user_message \<noteq> []
         then opt_text system @ ''\<newline>\<newline>User: '' @ user_message @ ''\<newline>\<newline>Assistant:''
         else if opt_truthy system then opt_text system
         else user_message)"

text \<open>
  The prompt as the specification words it: the content of the last message with role
  \<^verbatim>\<open>user\<close>, or the empty text if there is none; the three-part format when a system prompt
  is present and a user message exists; the system prompt when only it is present; the
  user text otherwise.
\<close>

definition last_user_message :: "Message list \<Rightarrow> Message option" where
  "last_user_message messages = List.find (\<lambda>msg. role msg = ''user'') (rev messages)"

definition prompt_as_specified :: "Message list \<Rightarrow> string option \<Rightarrow> string" where
  "prompt_as_specified messages system =
     (case (system, last_user_message messages) of
        (Some s, Some u) \<Rightarrow> s @ ''\<newline>\<newline>User: '' @ content u @ ''\<newline>\<newline>Assistant:''
      | (Some s, None) \<Rightarrow> s
      | (None, Some u) \<Rightarrow> content u
      | (None, None) \<Rightarrow> [])"

section \<open>The chunk streamer\<close>

text \<open>\<^verbatim>\<open>str.split()\<close> without arguments: the maximal runs of characters that are not
  whitespace, in order. The whitespace code points below 256 are 9 to 13, 28 to 32, 133
  and 160.\<close>

definition is_space :: "char \<Rightarrow> bool" where
  "is_space c = (let n = (of_char c :: nat) in
      (9 \<le> n \<and> n \<le> 13) \<or> (28 \<le> n \<and> n \<le> 32) \<or> n = 133 \<or> n = 160)"

fun split_from :: "string \<Rightarrow> string \<Rightarrow> string list" where
  \<comment> \<open>\<open>cur\<close> is the word read so far\<close>
  "split_from cur [] = (if cur = [] then [] else [cur])"
| "split_from cur (c # cs) =
     (if is_space c then (if cur = [] then split_from [] cs else cur # split_from [] cs)
      else split_from (cur @ [c]) cs)"

definition str_split :: "string \<Rightarrow> string list" where
  "str_split s = split_from [] s"

text \<open>\<^verbatim>\<open>response.split()\<close> on any value: a data attribute named \<^verbatim>\<open>split\<close> is not
  callable, a string is split, and every other value has no such attribute.\<close>

definition call_split :: "pyval \<Rightarrow> exn + string list" where
  "call_split v =
     (case find_attr v ''split'' of
        Some a \<Rightarrow> Inl (TypeError ([CHR 0x27] @ type_name a @ [CHR 0x27] @ '' object is not callable''))
      | None \<Rightarrow>
         (case builtin_of v of
            PStr s \<Rightarrow> Inr (str_split s)
          | _ \<Rightarrow> Inl (AttributeError
                ([CHR 0x27] @ type_name v @ [CHR 0x27] @ '' object has no attribute ''
                  @ [CHR 0x27] @ ''split'' @ [CHR 0x27]))))"

text \<open>
  What the generator yields. \<open>Data d\<close> stands for the string
  \<^verbatim>\<open>f"data: {json.dumps(d)}\n\n"\<close> and \<open>Literal s\<close> for the string \<open>s\<close> itself;
  \<open>frame_text\<close> gives the string, for any serialiser \<open>dumps\<close>.
\<close>

datatype frame = Data pyval | Literal string

fun frame_text :: "(pyval \<Rightarrow> string) \<Rightarrow> frame \<Rightarrow> string" where
  "frame_text dumps (Data d) = ''data: '' @ dumps d @ ''\<newline>\<newline>''"
| "frame_text dumps (Literal s) = s"

definition model_value :: "string option \<Rightarrow> pyval" where
  "model_value m = (case m of None \<Rightarrow> PNone | Some n \<Rightarrow> PStr n)"

definition chunk_size :: nat where
  "chunk_size = 10"

definition chunk_data :: "string option \<Rightarrow> string \<Rightarrow> pyval" where
  "chunk_data m chunk_text =
     PDict [(PStr ''id'', PStr ''chatcmpl-ollama''),
            (PStr ''object'', PStr ''chat.completion.chunk''),
            (PStr ''created'', PInt 1234567890),
            (PStr ''model'', model_value m),
            (PStr ''choices'', PList [PDict
               [(PStr ''index'', PInt 0),
                (PStr ''delta'', PDict [(PStr ''content'', PStr chunk_text)]),
                (PStr ''finish_reason'', PNone)]])]"

definition final_chunk :: "string option \<Rightarrow> pyval" where
  "final_chunk m =
     PDict [(PStr ''id'', PStr ''chatcmpl-ollama''),
            (PStr ''object'', PStr ''chat.completion.chunk''),
            (PStr ''created'', PInt 1234567890),
            (PStr ''model'', model_value m),
            (PStr ''choices'', PList [PDict
               [(PStr ''index'', PInt 0),
                (PStr ''delta'', PDict []),
                (PStr ''finish_reason'', PStr ''stop'')]])]"

definition error_chunk :: "exn \<Rightarrow> pyval" where
  "error_chunk e =
     PDict [(PStr ''error'', PDict [(PStr ''message'', PStr (exn_str e)),
                                    (PStr ''type'', PStr ''server_error'')])]"

definition done_frame :: frame where
  "done_frame = Literal ''data: [DONE]\<newline>\<newline>''"

text \<open>
  The loop of lines 75 to 95; \<open>i\<close> runs over \<^verbatim>\<open>range(0, len(words), chunk_size)\<close>. The
  pause \<^verbatim>\<open>asyncio.sleep(0.05)\<close> after each frame has no effect on what is yielded.
\<close>

function stream_loop :: "string option \<Rightarrow> string list \<Rightarrow> nat \<Rightarrow> frame list" where
  "stream_loop m words i =
     (if i < length words then
        (let chunk_words = take chunk_size (drop i words);
             chunk_text = join '' '' chunk_words;
             chunk_text = (if i + chunk_size < length words then chunk_text @ '' '' else chunk_text)
         in Data (chunk_data m chunk_text) # stream_loop m words (i + chunk_size))
      else [])"
  by pat_completeness auto
termination
  by (relation "measure (\<lambda>(m, words, i). length words - i)") (auto simp: chunk_size_def)

declare stream_loop.simps [simp del]

text \<open>Lines 72 to 111, from the normalised response on: the frames yielded, and the
  exception that ended the run, if one did.\<close>

definition chunk_streamer :: "string option \<Rightarrow> pyval \<Rightarrow> frame list \<times> exn option" where
  "chunk_streamer m response =
     (case call_split response of
        Inl e \<Rightarrow> ([], Some e)
      | Inr words \<Rightarrow> (stream_loop m words 0 @ [Data (final_chunk m), done_frame], None))"

text \<open>The \<^verbatim>\<open>try\<close> block of \<^verbatim>\<open>generate_stream_response\<close>, lines 43 to 111.\<close>

definition stream_body ::
    "environment \<Rightarrow> Message list \<Rightarrow> string option \<Rightarrow> string option \<Rightarrow> server_state
      \<Rightarrow> (frame list \<times> exn option) \<times> server_state" where
  "stream_body env messages system m st =
     (case get_chat_client env m st of
        Inl e \<Rightarrow> (([], Some e), st)
      | Inr (client, st') \<Rightarrow>
         (case chat_result env client (assemble_prompt messages system) of
            Inl e \<Rightarrow> (([], Some e), st')
          | Inr raw_response \<Rightarrow>
             (case normalize_response (python env) raw_response of
                Inl e \<Rightarrow> (([], Some e), st')
              | Inr response \<Rightarrow> (chunk_streamer m response, st'))))"

text \<open>The whole generator: the handler of lines 113 to 120 yields one more frame after
  whatever the \<^verbatim>\<open>try\<close> block had yielded.\<close>

definition generate_stream_response ::
    "environment \<Rightarrow> Message list \<Rightarrow> string option \<Rightarrow> string option \<Rightarrow> server_state
      \<Rightarrow> frame list \<times> server_state" where
  "generate_stream_response env messages system m st =
     (case stream_body env messages system m st of
        ((frames, None), st') \<Rightarrow> (frames, st')
      | ((frames, Some e), st') \<Rightarrow> (frames @ [Data (error_chunk e)], st'))"

section \<open>The request handler\<close>

text \<open>
  \<^verbatim>\<open>chat_completions\<close> returns a streaming response that carries the generator, or a
  \<^verbatim>\<open>ChatResponse\<close>, or raises \<^verbatim>\<open>HTTPException(status_code=500, detail=str(e))\<close>. The
  state returned with a streaming response is the state after the stream was consumed.
  Constructing \<^verbatim>\<open>ChatResponse\<close> validates the field \<^verbatim>\<open>model: str\<close>, which the request
  may have left \<^verbatim>\<open>None\<close>. Of the two \<^verbatim>\<open>print\<close> calls, the second formats
  \<^verbatim>\<open>raw_response\<close> into an f-string, which takes its \<^verbatim>\<open>str\<close> and raises what that
  raises; what they write to the standard output is not modelled.
\<close>

datatype http_result =
    StreamingResponse "frame list"
  | Completion ChatResponse
  | HTTPException int string

definition new_ChatResponse :: "environment \<Rightarrow> string option \<Rightarrow> pyval \<Rightarrow> exn + ChatResponse" where
  "new_ChatResponse env m response =
     (case m of
        None \<Rightarrow> Inl (ValidationError (pydantic_message env))
      | Some name \<Rightarrow> Inr
          \<lparr>resp_id = ''chatcmpl-ollama'',
           resp_object = ''chat.completion'',
           resp_created = 1234567890,
           resp_model = name,
           resp_choices =
             [PDict [(PStr ''index'', PInt 0),
                     (PStr ''message'', PDict [(PStr ''role'', PStr ''assistant''),
                                               (PStr ''content'', response)]),
                     (PStr ''finish_reason'', PStr ''stop'')]]\<rparr>)"

definition chat_completions :: "environment \<Rightarrow> ChatRequest \<Rightarrow> server_state \<Rightarrow> http_result \<times> server_state" where
  "chat_completions env request st =
     (if req_stream request then
        (case generate_stream_response env (req_messages request) (req_system request)
                (req_model request) st of
           (frames, st') \<Rightarrow> (StreamingResponse frames, st'))
      else
        (case get_chat_client env (req_model request) st of
           Inl e \<Rightarrow> (HTTPException 500 (exn_str e), st)
         | Inr (client, st') \<Rightarrow>
            (case chat_result env client
                    (assemble_prompt (req_messages request) (req_system request)) of
               Inl e \<Rightarrow> (HTTPException 500 (exn_str e), st')
             | Inr raw_response \<Rightarrow>
                (case str_call (python env) raw_response of
                   Inl e \<Rightarrow> (HTTPException 500 (exn_str e), st')
                 | Inr printed \<Rightarrow>
                    (case normalize_response (python env) raw_response of
                       Inl e \<Rightarrow> (HTTPException 500 (exn_str e), st')
                     | Inr response \<Rightarrow>
                        (case new_ChatResponse env (req_model request) response of
                           Inl e \<Rightarrow> (HTTPException 500 (exn_str e), st')
                         | Inr r \<Rightarrow> (Completion r, st')))))))"

section \<open>Reading a stream\<close>

text \<open>How a consumer reads the frames: the first choice of a chunk, the text of its
  delta when it has one, and its finish reason.\<close>

fun dict_get :: "pyval \<Rightarrow> string \<Rightarrow> pyval option" where
  "dict_get (PDict kvs) k = map_of kvs (PStr k)"
| "dict_get v k = None"

definition first_choice :: "frame \<Rightarrow> pyval option" where
  "first_choice f =
     (case f of
        Data d \<Rightarrow> (case dict_get d ''choices'' of Some (PList (c # cs)) \<Rightarrow> Some c | _ \<Rightarrow> None)
      | Literal s \<Rightarrow> None)"

definition delta_content :: "frame \<Rightarrow> string option" where
  "delta_content f =
     (case first_choice f of
        None \<Rightarrow> None
      | Some c \<Rightarrow> (case dict_get c ''delta'' of
                     None \<Rightarrow> None
                   | Some d \<Rightarrow> (case dict_get d ''content'' of Some (PStr s) \<Rightarrow> Some s | _ \<Rightarrow> None)))"

definition finish_reason :: "frame \<Rightarrow> pyval option" where
  "finish_reason f = (case first_choice f of None \<Rightarrow> None | Some c \<Rightarrow> dict_get c ''finish_reason'')"

definition is_content_chunk :: "frame \<Rightarrow> bool" where
  "is_content_chunk f = (delta_content f \<noteq> None \<and> finish_reason f = Some PNone)"

definition is_stop_chunk :: "frame \<Rightarrow> bool" where
  "is_stop_chunk f = (delta_content f = None \<and> finish_reason f = Some (PStr ''stop''))"

definition is_error_frame :: "frame \<Rightarrow> bool" where
  "is_error_frame f = (case f of Data d \<Rightarrow> dict_get d ''error'' \<noteq> None | Literal s \<Rightarrow> False)"

definition content_chunks :: "frame list \<Rightarrow> frame list" where
  "content_chunks frames = filter is_content_chunk frames"

definition concat_deltas :: "frame list \<Rightarrow> string" where
  "concat_deltas frames = concat (List.map_filter delta_content (content_chunks frames))"

section \<open>Notions used in the statements\<close>

text \<open>A word is a non-empty string without whitespace.\<close>

definition is_word :: "string \<Rightarrow> bool" where
  "is_word w = (w \<noteq> [] \<and> (\<forall>c \<in> set w. \<not> is_space c))"

text \<open>A text is single-spaced when it is empty, or consists of words with exactly one
  space character between neighbours and no whitespace before the first or after the
  last word. \<open>well_spaced in_word cs\<close> reads the rest \<open>cs\<close> of such a text,
  \<open>in_word\<close> telling whether the character before it belonged to a word.\<close>

fun well_spaced :: "bool \<Rightarrow> string \<Rightarrow> bool" where
  "well_spaced in_word [] = in_word"
| "well_spaced in_word (c # cs) =
     (if is_space c then in_word \<and> c = CHR '' '' \<and> well_spaced False cs
      else well_spaced True cs)"

definition single_spaced :: "string \<Rightarrow> bool" where
  "single_spaced s = (s = [] \<or> well_spaced False s)"

text \<open>The text of the chunk that the loop builds at index \<open>i\<close>.\<close>

definition chunk_text_at :: "string list \<Rightarrow> nat \<Rightarrow> string" where
  "chunk_text_at words i =
     join '' '' (take chunk_size (drop i words))
       @ (if i + chunk_size < length words then '' '' else [])"

text \<open>The value whose \<^verbatim>\<open>str\<close> the normaliser takes: none when one of the first three
  steps applies, else the first element of a non-empty list, else the reply itself.\<close>

definition converted :: "pyval \<Rightarrow> pyval option" where
  "converted r =
     (if isinstance_str r \<or> content_attribute r \<noteq> None \<or> content_key r \<noteq> None then None
      else case first_element r of Some x \<Rightarrow> Some x | None \<Rightarrow> Some r)"

text \<open>Whether the handler's result is the raised \<^verbatim>\<open>HTTPException\<close>.\<close>

definition raises :: "http_result \<Rightarrow> bool" where
  "raises res = (case res of HTTPException code detail \<Rightarrow> True | _ \<Rightarrow> False)"

text \<open>The framing fields of a chunk, and the three kinds of frame a stream may hold.\<close>

definition carries_framing :: "frame \<Rightarrow> bool" where
  "carries_framing f =
     (case f of
        Data d \<Rightarrow> dict_get d ''id'' = Some (PStr ''chatcmpl-ollama'')
                  \<and> dict_get d ''created'' = Some (PInt 1234567890)
      | Literal s \<Rightarrow> False)"

definition well_framed :: "frame \<Rightarrow> bool" where
  "well_framed f =
     (f = done_frame \<or> is_error_frame f
      \<or> ((is_content_chunk f \<or> is_stop_chunk f) \<and> carries_framing f))"

text \<open>An interpreter with the default digit limit of CPython 3.11, 4300, and 900 levels
  left for \<^verbatim>\<open>repr\<close>; and two environments for concrete runs: a backend that answers
  every prompt with the prompt itself, and one whose \<^verbatim>\<open>chat\<close> call raises.\<close>

definition cpython :: interpreter where
  "cpython = \<lparr>int_max_str_digits = 4300, repr_depth = 900\<rparr>"

definition echo_backend :: environment where
  "echo_backend =
     \<lparr>ChatOllama_raises = (\<lambda>m. None),
      chat_result = (\<lambda>h prompt. Inr (PStr prompt)),
      pydantic_message = ''model: Input should be a valid string'',
      python = cpython\<rparr>"

definition failing_backend :: environment where
  "failing_backend =
     \<lparr>ChatOllama_raises = (\<lambda>m. None),
      chat_result = (\<lambda>h prompt. Inl (BackendError ''connection refused'')),
      pydantic_message = ''model: Input should be a valid string'',
      python = cpython\<rparr>"

section \<open>Lemmas\<close>

subsection \<open>What normalisation returns\<close>

lemma normalize_response_outcome:
  "normalize_response py r =
     (case converted r of
        None \<Rightarrow> Inr (normalizer_steps r)
      | Some x \<Rightarrow> (case str_raises py x of
                    Some e \<Rightarrow> Inl e
                  | None \<Rightarrow> Inr (normalizer_steps r)))"
  unfolding normalize_response_def normalizer_steps_def converted_def content_attribute_def
    content_key_def first_element_def hasattr_def getattr_def isinstance_dict_def
    dict_contains_def dict_getitem_def isinstance_list_def py_len_def truthy_def
    list_getitem_def str_call_def
  by (auto split: option.splits pyval.splits list.splits)

lemma too_many_digits_small: "\<bar>i\<bar> < 10 \<Longrightarrow> \<not> too_many_digits py i"
proof
  assume small: "\<bar>i\<bar> < 10" and "too_many_digits py i"
  then have pos: "0 < int_max_str_digits py" and le: "10 ^ int_max_str_digits py \<le> \<bar>i\<bar>"
    by (simp_all add: too_many_digits_def)
  from pos have "(10::int) ^ 1 \<le> 10 ^ int_max_str_digits py"
    by (intro power_increasing) simp_all
  with le small show False by simp
qed

lemma normalize_response_str: "normalize_response py (PStr s) = Inr (PStr s)"
  by (simp add: normalize_response_def isinstance_str_def)

lemma normalizer_steps_kind:
  "isinstance_str (normalizer_steps r) \<or> content_attribute r = Some (normalizer_steps r)
     \<or> content_key r = Some (normalizer_steps r)"
  unfolding normalizer_steps_def
  by (auto simp: isinstance_str_def split: option.splits)

subsection \<open>Splitting and joining\<close>

lemma join_append:
  "xs \<noteq> [] \<Longrightarrow> ys \<noteq> [] \<Longrightarrow> join sep (xs @ ys) = join sep xs @ sep @ join sep ys"
proof (induction sep xs rule: join.induct)
  case (2 sep x)
  then show ?case by (cases ys) auto
qed auto

lemma join_Cons: "xs \<noteq> [] \<Longrightarrow> join sep (x # xs) = x @ sep @ join sep xs"
  by (cases xs) auto

lemma space_is_space: "is_space (CHR '' '')"
  by (simp add: is_space_def)

lemma split_from_words:
  "\<forall>c \<in> set cur. \<not> is_space c \<Longrightarrow> \<forall>w \<in> set (split_from cur cs). is_word w"
proof (induction cs arbitrary: cur)
  case Nil
  then show ?case by (simp add: is_word_def)
next
  case (Cons c cs)
  show ?case
  proof (cases "is_space c")
    case True
    have "\<forall>w \<in> set (split_from [] cs). is_word w"
      by (rule Cons.IH) simp
    with True Cons.prems show ?thesis by (simp add: is_word_def)
  next
    case False
    with Cons.prems have "\<forall>w \<in> set (split_from (cur @ [c]) cs). is_word w"
      by (intro Cons.IH) simp
    with False show ?thesis by simp
  qed
qed

lemma str_split_words: "\<forall>w \<in> set (str_split s). is_word w"
  unfolding str_split_def by (rule split_from_words) simp

lemma split_from_word:
  "\<forall>c \<in> set w. \<not> is_space c \<Longrightarrow> split_from cur (w @ rest) = split_from (cur @ w) rest"
  by (induction w arbitrary: cur) auto

lemma split_from_trailing:
  "is_space c \<Longrightarrow> split_from cur (xs @ [c]) = split_from cur xs"
  by (induction xs arbitrary: cur) auto

lemma split_from_nonempty: "cur \<noteq> [] \<Longrightarrow> split_from cur cs \<noteq> []"
  by (induction cs arbitrary: cur) auto

lemma str_split_join:
  "\<forall>w \<in> set ws. is_word w \<Longrightarrow> str_split (join '' '' ws) = ws"
proof (induction "'' ''" ws rule: join.induct)
  case 1
  then show ?case by (simp add: str_split_def)
next
  case (2 x)
  then have "split_from [] (x @ []) = split_from ([] @ x) []"
    by (intro split_from_word) (simp add: is_word_def)
  with 2 show ?case by (simp add: str_split_def is_word_def)
next
  case (3 x y ys)
  then have w: "\<forall>c \<in> set x. \<not> is_space c" and ne: "x \<noteq> []"
    by (simp_all add: is_word_def)
  have "split_from [] (x @ ('' '' @ join '' '' (y # ys)))
      = split_from ([] @ x) ('' '' @ join '' '' (y # ys))"
    using w by (rule split_from_word)
  also have "\<dots> = x # split_from [] (join '' '' (y # ys))"
    using ne by (simp add: space_is_space)
  also have "\<dots> = x # y # ys"
    using 3 by (simp add: str_split_def)
  finally show ?case by (simp add: str_split_def)
qed

lemma join_split_from:
  "well_spaced (cur \<noteq> []) cs \<Longrightarrow> join '' '' (split_from cur cs) = cur @ cs"
proof (induction cs arbitrary: cur)
  case Nil
  then show ?case by simp
next
  case (Cons c cs)
  show ?case
  proof (cases "is_space c")
    case True
    with Cons.prems have cur: "cur \<noteq> []" and c: "c = CHR '' ''" and ws: "well_spaced False cs"
      by simp_all
    from ws have ne: "split_from [] cs \<noteq> []"
      by (cases cs) (auto simp: split_from_nonempty)
    from ws have "join '' '' (split_from [] cs) = [] @ cs"
      by (intro Cons.IH) simp
    with True cur c ne show ?thesis
      by (simp add: join_Cons)
  next
    case False
    with Cons.prems have "well_spaced (cur @ [c] \<noteq> []) cs" by simp
    then have "join '' '' (split_from (cur @ [c]) cs) = (cur @ [c]) @ cs"
      by (rule Cons.IH)
    with False show ?thesis by simp
  qed
qed

lemma join_str_split: "single_spaced s \<Longrightarrow> join '' '' (str_split s) = s"
  using join_split_from [of "[]" s]
  by (auto simp: single_spaced_def str_split_def)

subsection \<open>The frames of the loop\<close>

lemma delta_content_chunk [simp]: "delta_content (Data (chunk_data m t)) = Some t"
  by (simp add: delta_content_def first_choice_def chunk_data_def)

lemma finish_reason_chunk [simp]: "finish_reason (Data (chunk_data m t)) = Some PNone"
  by (simp add: finish_reason_def first_choice_def chunk_data_def)

lemma delta_content_final [simp]: "delta_content (Data (final_chunk m)) = None"
  by (simp add: delta_content_def first_choice_def final_chunk_def)

lemma finish_reason_final [simp]: "finish_reason (Data (final_chunk m)) = Some (PStr ''stop'')"
  by (simp add: finish_reason_def first_choice_def final_chunk_def)

lemma delta_content_done [simp]: "delta_content done_frame = None"
  by (simp add: delta_content_def first_choice_def done_frame_def)

lemma finish_reason_done [simp]: "finish_reason done_frame = None"
  by (simp add: finish_reason_def first_choice_def done_frame_def)

lemma stream_loop_unfold:
  "stream_loop m words i =
     (if i < length words
      then Data (chunk_data m (chunk_text_at words i)) # stream_loop m words (i + chunk_size)
      else [])"
  by (subst stream_loop.simps) (simp add: chunk_text_at_def Let_def)

lemma stream_loop_content: "\<forall>f \<in> set (stream_loop m words i). is_content_chunk f"
proof (induction m words i rule: stream_loop.induct)
  case (1 m words i)
  show ?case
  proof (cases "i < length words")
    case True
    with 1 show ?thesis
      by (subst stream_loop_unfold) (simp add: is_content_chunk_def)
  next
    case False
    then show ?thesis by (subst stream_loop_unfold) simp
  qed
qed

lemma content_chunks_stream_loop: "content_chunks (stream_loop m words i) = stream_loop m words i"
  unfolding content_chunks_def using stream_loop_content [of m words i]
  by (simp add: filter_id_conv)

lemma ceil_step: "i < (n::nat) \<Longrightarrow> Suc ((n - (i + 10) + 9) div 10) = (n - i + 9) div 10"
proof (cases "i + 10 \<le> n")
  case True
  then have "n - i + 9 = (n - (i + 10) + 9) + 10" by simp
  then show ?thesis by (simp only: div_add_self2)
next
  case False
  assume "i < n"
  with False have "n - (i + 10) = 0" and "10 \<le> n - i + 9" and "n - i + 9 < 20" by simp_all
  then show ?thesis by simp
qed

lemma length_stream_loop: "length (stream_loop m words i) = (length words - i + 9) div 10"
proof (induction m words i rule: stream_loop.induct)
  case (1 m words i)
  show ?case
  proof (cases "i < length words")
    case True
    have IH: "length (stream_loop m words (i + chunk_size)) = (length words - (i + chunk_size) + 9) div 10"
      by (rule "1.IH" [OF True refl refl refl])
    have "length (stream_loop m words i) = Suc (length (stream_loop m words (i + chunk_size)))"
      using True by (subst stream_loop_unfold) simp
    also have "\<dots> = Suc ((length words - (i + 10) + 9) div 10)"
      using IH by (simp add: chunk_size_def)
    also have "\<dots> = (length words - i + 9) div 10"
      using True by (rule ceil_step)
    finally show ?thesis .
  next
    case False
    then show ?thesis by (subst stream_loop_unfold) simp
  qed
qed

lemma nth_stream_loop:
  "k < length (stream_loop m words i) \<Longrightarrow>
     stream_loop m words i ! k = Data (chunk_data m (chunk_text_at words (i + chunk_size * k)))"
proof (induction m words i arbitrary: k rule: stream_loop.induct)
  case (1 m words i)
  show ?case
  proof (cases "i < length words")
    case True
    note unf = stream_loop_unfold [of m words i]
    show ?thesis
    proof (cases k)
      case 0
      with True show ?thesis by (simp add: unf)
    next
      case (Suc j)
      with "1.prems" True have "j < length (stream_loop m words (i + chunk_size))"
        by (simp add: unf)
      then have "stream_loop m words (i + chunk_size) ! j
          = Data (chunk_data m (chunk_text_at words (i + chunk_size + chunk_size * j)))"
        by (rule "1.IH" [OF True refl refl refl])
      with True Suc show ?thesis by (simp add: unf add.assoc)
    qed
  next
    case False
    with "1.prems" show ?thesis by (simp add: stream_loop_unfold [of m words i])
  qed
qed

lemma deltas_stream_loop:
  "concat (List.map_filter delta_content (stream_loop m words i)) = join '' '' (drop i words)"
proof (induction m words i rule: stream_loop.induct)
  case (1 m words i)
  note unf = stream_loop_unfold [of m words i]
  show ?case
  proof (cases "i < length words")
    case True
    have IH: "concat (List.map_filter delta_content (stream_loop m words (i + chunk_size)))
        = join '' '' (drop (i + chunk_size) words)"
      by (rule "1.IH" [OF True refl refl refl])
    have "drop (i + chunk_size) words = drop chunk_size (drop i words)"
      by (simp add: add.commute)
    then have split: "drop i words = take chunk_size (drop i words) @ drop (i + chunk_size) words"
      by (simp only: append_take_drop_id)
    show ?thesis
    proof (cases "i + chunk_size < length words")
      case more: True
      then have "take chunk_size (drop i words) \<noteq> []" "drop (i + chunk_size) words \<noteq> []"
        by (simp_all add: chunk_size_def)
      then have "join '' '' (take chunk_size (drop i words) @ drop (i + chunk_size) words)
          = join '' '' (take chunk_size (drop i words)) @ '' '' @ join '' '' (drop (i + chunk_size) words)"
        by (rule join_append)
      with split have "join '' '' (drop i words)
          = join '' '' (take chunk_size (drop i words)) @ '' '' @ join '' '' (drop (i + chunk_size) words)"
        by simp
      with True more IH show ?thesis
        by (simp add: unf List.map_filter_simps chunk_text_at_def)
    next
      case False
      then have "take chunk_size (drop i words) = drop i words" "drop (i + chunk_size) words = []"
        by simp_all
      with True False IH show ?thesis
        by (simp add: unf List.map_filter_simps chunk_text_at_def)
    qed
  next
    case False
    then show ?thesis by (simp add: unf List.map_filter_simps)
  qed
qed

lemma chunk_streamer_str:
  "chunk_streamer m (PStr text)
     = (stream_loop m (str_split text) 0 @ [Data (final_chunk m), done_frame], None)"
  by (simp add: chunk_streamer_def call_split_def)

lemma content_chunks_streamer:
  "content_chunks (fst (chunk_streamer m (PStr text))) = stream_loop m (str_split text) 0"
  using content_chunks_stream_loop [of m "str_split text" 0]
  by (simp add: chunk_streamer_str content_chunks_def is_content_chunk_def)

subsection \<open>Counting chunks\<close>

lemma div10_up: "(n + 9) div 10 = (if n mod 10 = 0 then n div 10 else Suc (n div 10))" for n :: nat
proof -
  define q where "q = n div 10"
  define r where "r = n mod 10"
  have n: "n = q * 10 + r" and r: "r < 10" by (simp_all add: q_def r_def)
  have "(n + 9) div 10 = (r + 9 + q * 10) div 10" by (simp add: n add.commute add.left_commute)
  also have "\<dots> = q + (r + 9) div 10" by (rule div_mult_self1) simp
  finally have e: "(n + 9) div 10 = q + (r + 9) div 10" .
  show ?thesis
  proof (cases "r = 0")
    case True
    with e show ?thesis by (simp add: q_def [symmetric] r_def [symmetric])
  next
    case False
    with r have "10 \<le> r + 9" "r + 9 < 20" by simp_all
    then have "(r + 9) div 10 = 1" by (simp add: div_nat_eqI)
    with e False show ?thesis by (simp add: q_def [symmetric] r_def [symmetric])
  qed
qed

lemma ceiling_div10: "\<lceil>real n / 10\<rceil> = int ((n + 9) div 10)"
proof -
  define q where "q = n div 10"
  define r where "r = n mod 10"
  have n: "n = q * 10 + r" and r: "r < 10" by (simp_all add: q_def r_def)
  have rn: "real n / 10 = real q + real r / 10" by (simp add: n)
  show ?thesis
  proof (cases "r = 0")
    case True
    then have "n mod 10 = 0" by (simp add: r_def)
    then have "(n + 9) div 10 = q" by (simp add: div10_up q_def)
    moreover from True rn have "\<lceil>real n / 10\<rceil> = int q" by simp
    ultimately show ?thesis by simp
  next
    case False
    then have "n mod 10 \<noteq> 0" by (simp add: r_def)
    then have up: "(n + 9) div 10 = Suc q" by (simp add: div10_up q_def)
    from False r have "0 < real r" "real r < 10" by simp_all
    then have "real q < real n / 10" "real n / 10 \<le> real q + 1" by (simp_all add: rn)
    then have "\<lceil>real n / 10\<rceil> = int q + 1"
      by (intro ceiling_unique) simp_all
    with up show ?thesis by simp
  qed
qed

lemma last_group:
  "0 < n \<Longrightarrow> min 10 (n - 10 * ((n + 9) div 10 - 1)) = (if n mod 10 = 0 then 10 else n mod 10)" for n :: nat
proof -
  assume pos: "0 < n"
  define q where "q = n div 10"
  define r where "r = n mod 10"
  have n: "n = q * 10 + r" and r: "r < 10" by (simp_all add: q_def r_def)
  show ?thesis
  proof (cases "r = 0")
    case True
    then have m: "n mod 10 = 0" by (simp add: r_def)
    then have up: "(n + 9) div 10 = q" by (simp add: div10_up q_def)
    from pos n True obtain p where p: "q = Suc p" by (cases q) auto
    have "n - 10 * (q - 1) = 10" by (simp add: n True p)
    with m up show ?thesis by simp
  next
    case False
    then have m: "n mod 10 \<noteq> 0" by (simp add: r_def)
    then have up: "(n + 9) div 10 = Suc q" by (simp add: div10_up q_def)
    have "n - 10 * q = r" by (simp add: n)
    with m up r show ?thesis by (simp add: r_def [symmetric])
  qed
qed

lemma str_split_join_space:
  "\<forall>w \<in> set ws. is_word w \<Longrightarrow> str_split (join '' '' ws @ '' '') = ws"
  using split_from_trailing [OF space_is_space, of "[]" "join '' '' ws"] str_split_join [of ws]
  by (simp add: str_split_def)

lemma str_split_chunk_text:
  "\<forall>w \<in> set words. is_word w \<Longrightarrow>
     str_split (chunk_text_at words i) = take chunk_size (drop i words)"
proof -
  assume w: "\<forall>w \<in> set words. is_word w"
  have "set (take chunk_size (drop i words)) \<subseteq> set words"
    by (meson set_take_subset set_drop_subset subset_trans)
  with w have "\<forall>w \<in> set (take chunk_size (drop i words)). is_word w" by blast
  then show ?thesis
    by (simp add: chunk_text_at_def str_split_join str_split_join_space)
qed

lemma concat_deltas_streamer:
  "concat_deltas (fst (chunk_streamer m (PStr text))) = join '' '' (str_split text)"
  using deltas_stream_loop [of m "str_split text" 0]
  by (simp add: concat_deltas_def content_chunks_streamer)

lemma str_split_abg: "str_split ''alpha beta gamma'' = [''alpha'', ''beta'', ''gamma'']"
  by (simp add: str_split_def is_space_def)

lemma stream_loop_abg:
  "stream_loop m [''alpha'', ''beta'', ''gamma''] 0 = [Data (chunk_data m ''alpha beta gamma'')]"
  by (simp add: stream_loop_unfold [of m _ 0] stream_loop_unfold [of m _ 10]
      chunk_text_at_def chunk_size_def)

subsection \<open>Streams, prompts and responses\<close>

lemma content_not_stop: "is_content_chunk f \<Longrightarrow> \<not> is_stop_chunk f \<and> f \<noteq> done_frame"
  by (auto simp: is_content_chunk_def is_stop_chunk_def)

lemma stop_final: "is_stop_chunk (Data (final_chunk m))"
  by (simp add: is_stop_chunk_def)

lemma done_not_stop: "\<not> is_stop_chunk done_frame"
  by (simp add: is_stop_chunk_def)

lemma final_not_done: "Data (final_chunk m) \<noteq> done_frame"
  by (simp add: done_frame_def)

lemma chunk_streamer_normal:
  "chunk_streamer m response = (frames, None) \<Longrightarrow>
     \<exists>words. call_split response = Inr words
       \<and> frames = stream_loop m words 0 @ [Data (final_chunk m), done_frame]"
  by (auto simp: chunk_streamer_def split: sum.splits)

lemma chunk_streamer_raises:
  "chunk_streamer m response = (frames, Some e) \<Longrightarrow> frames = [] \<and> call_split response = Inl e"
  by (auto simp: chunk_streamer_def split: sum.splits)

lemma stream_body_normal:
  assumes "stream_body env messages system m st = ((frames, None), st')"
  shows "\<exists>words. frames = stream_loop m words 0 @ [Data (final_chunk m), done_frame]"
proof -
  from assms obtain response where "chunk_streamer m response = (frames, None)"
    by (auto simp: stream_body_def split: sum.splits prod.splits)
  then show ?thesis by (blast dest: chunk_streamer_normal)
qed

lemma stream_body_raises_nothing_yielded:
  assumes "stream_body env messages system m st = ((frames, Some e), st')"
  shows "frames = []"
  using assms
  by (auto simp: stream_body_def split: sum.splits prod.splits dest: chunk_streamer_raises)

lemma stream_body_hello:
  "stream_body echo_backend [\<lparr>role = ''user'', content = ''Hello''\<rparr>] None
      (Some ''phi4:latest'') initial_state
   = (([Data (chunk_data (Some ''phi4:latest'') ''Hello''),
        Data (final_chunk (Some ''phi4:latest'')), done_frame], None),
      \<lparr>chat_client = Some (Handle 0 (Some ''phi4:latest'')),
       current_model = Some ''phi4:latest'', constructed = 1\<rparr>)"
  by (simp add: stream_body_def get_chat_client_def replace_client_def ChatOllama_def
      echo_backend_def initial_state_def assemble_prompt_def opt_truthy_def
      normalize_response_str chunk_streamer_def call_split_def
      str_split_def is_space_def stream_loop_unfold [of _ _ 0] stream_loop_unfold [of _ _ 10]
      chunk_text_at_def chunk_size_def)

lemma stream_body_failing:
  "stream_body failing_backend [\<lparr>role = ''user'', content = ''Hello''\<rparr>] None
      (Some ''phi4:latest'') initial_state
   = (([], Some (BackendError ''connection refused'')),
      \<lparr>chat_client = Some (Handle 0 (Some ''phi4:latest'')),
       current_model = Some ''phi4:latest'', constructed = 1\<rparr>)"
  by (simp add: stream_body_def get_chat_client_def replace_client_def ChatOllama_def
      failing_backend_def initial_state_def)

lemma error_frame_kind:
  "is_error_frame (Data (error_chunk e)) \<and> \<not> is_stop_chunk (Data (error_chunk e))
   \<and> \<not> is_content_chunk (Data (error_chunk e)) \<and> Data (error_chunk e) \<noteq> done_frame"
  by (simp add: is_error_frame_def is_stop_chunk_def is_content_chunk_def error_chunk_def
      done_frame_def finish_reason_def delta_content_def first_choice_def)

lemma stream_body_raises_iff:
  "(\<exists>frames st'. stream_body env messages system m st = ((frames, Some e), st'))
   \<longleftrightarrow> get_chat_client env m st = Inl e
      \<or> (\<exists>client st1. get_chat_client env m st = Inr (client, st1)
            \<and> (chat_result env client (assemble_prompt messages system) = Inl e
                \<or> (\<exists>raw. chat_result env client (assemble_prompt messages system) = Inr raw
                      \<and> (normalize_response (python env) raw = Inl e
                          \<or> (\<exists>response. normalize_response (python env) raw = Inr response
                                \<and> call_split response = Inl e)))))"
  by (auto simp: stream_body_def chunk_streamer_def split: sum.splits prod.splits)

lemma last_user_content:
  "(let user_messages = map content (filter (\<lambda>msg. role msg = ''user'') messages)
    in if user_messages \<noteq> [] then last user_messages else [])
   = (case last_user_message messages of None \<Rightarrow> [] | Some u \<Rightarrow> content u)"
proof (induction messages rule: rev_induct)
  case Nil
  then show ?case by (simp add: last_user_message_def)
next
  case (snoc x xs)
  then show ?case by (auto simp: last_user_message_def Let_def split: if_splits)
qed

lemma chat_completions_hello:
  "chat_completions echo_backend
      \<lparr>req_messages = [\<lparr>role = ''user'', content = ''Hello''\<rparr>], req_system = None,
       req_model = Some ''phi4:latest'', req_stream = False, req_max_tokens = None,
       req_temperature = None\<rparr> initial_state
   = (Completion
        \<lparr>resp_id = ''chatcmpl-ollama'',
         resp_object = ''chat.completion'',
         resp_created = 1234567890,
         resp_model = ''phi4:latest'',
         resp_choices =
           [PDict [(PStr ''index'', PInt 0),
                   (PStr ''message'', PDict [(PStr ''role'', PStr ''assistant''),
                                             (PStr ''content'', PStr ''Hello'')]),
                   (PStr ''finish_reason'', PStr ''stop'')]]\<rparr>,
      \<lparr>chat_client = Some (Handle 0 (Some ''phi4:latest'')),
       current_model = Some ''phi4:latest'', constructed = 1\<rparr>)"
  by (simp add: chat_completions_def get_chat_client_def replace_client_def ChatOllama_def
      echo_backend_def initial_state_def assemble_prompt_def opt_truthy_def
      normalize_response_str str_call_def new_ChatResponse_def)

lemma stream_loop_frames:
  "f \<in> set (stream_loop m words i) \<Longrightarrow> \<exists>t. f = Data (chunk_data m t)"
  by (metis in_set_conv_nth nth_stream_loop)

lemma framing_chunk: "carries_framing (Data (chunk_data m t))"
  by (simp add: carries_framing_def chunk_data_def)

lemma framing_final: "carries_framing (Data (final_chunk m))"
  by (simp add: carries_framing_def final_chunk_def)

lemma well_framed_stream:
  "\<forall>f \<in> set (fst (generate_stream_response env messages system m st)). well_framed f"
proof -
  obtain frames ex st' where body: "stream_body env messages system m st = ((frames, ex), st')"
    by (metis prod.exhaust)
  show ?thesis
  proof (cases ex)
    case None
    with body obtain words
      where fr: "frames = stream_loop m words 0 @ [Data (final_chunk m), done_frame]"
      by (blast dest: stream_body_normal)
    have "well_framed f" if "f \<in> set (stream_loop m words 0)" for f
    proof -
      from that obtain t where "f = Data (chunk_data m t)" by (blast dest: stream_loop_frames)
      then show ?thesis by (simp add: well_framed_def is_content_chunk_def framing_chunk)
    qed
    moreover have "well_framed (Data (final_chunk m))"
      by (simp add: well_framed_def stop_final framing_final)
    moreover have "well_framed done_frame" by (simp add: well_framed_def)
    ultimately show ?thesis
      using body None by (auto simp: generate_stream_response_def fr)
  next
    case (Some e)
    with body have "frames = []" by (blast dest: stream_body_raises_nothing_yielded)
    with body Some show ?thesis
      using error_frame_kind [of e] by (simp add: generate_stream_response_def well_framed_def)
  qed
qed

section \<open>The claims\<close>

subsection \<open>C1: what the deltas add up to\<close>

text \<open>
  C1, as far as the code goes. For every canonical text, the chunk streamer raises
  nothing, and the deltas of its content chunks, concatenated in order, are the words of
  the text joined by single spaces. They are the text itself when the text is
  single-spaced: no whitespace before the first or after the last word, and exactly one
  space character between neighbouring words.
\<close>

theorem chunk_streamer_round_trip:
  "snd (chunk_streamer m (PStr text)) = None
   \<and> concat_deltas (fst (chunk_streamer m (PStr text))) = join '' '' (str_split text)
   \<and> (single_spaced text \<longrightarrow> concat_deltas (fst (chunk_streamer m (PStr text))) = text)"
proof (intro conjI impI)
  show "snd (chunk_streamer m (PStr text)) = None"
    by (simp add: chunk_streamer_str)
  show "concat_deltas (fst (chunk_streamer m (PStr text))) = join '' '' (str_split text)"
    by (rule concat_deltas_streamer)
  assume "single_spaced text"
  then show "concat_deltas (fst (chunk_streamer m (PStr text))) = text"
    by (simp add: concat_deltas_streamer join_str_split)
qed

text \<open>C1 at the single-spaced text \<^verbatim>\<open>alpha beta gamma\<close>: the deltas give the text back.\<close>

theorem chunk_streamer_round_trip_witness:
  "single_spaced ''alpha beta gamma''
   \<and> concat_deltas (fst (chunk_streamer (Some ''phi4:latest'') (PStr ''alpha beta gamma'')))
       = ''alpha beta gamma''"
proof -
  have s: "single_spaced ''alpha beta gamma''"
    by (simp add: single_spaced_def is_space_def)
  from chunk_streamer_round_trip [of "Some ''phi4:latest''" "''alpha beta gamma''"]
  have "single_spaced ''alpha beta gamma'' \<longrightarrow>
      concat_deltas (fst (chunk_streamer (Some ''phi4:latest'') (PStr ''alpha beta gamma'')))
        = ''alpha beta gamma''"
    by blast
  with s show ?thesis by blast
qed

text \<open>C1 as stated fails: for the text \<^verbatim>\<open>a  b\<close>, with two spaces, the deltas add up
  to \<^verbatim>\<open>a b\<close>, with one.\<close>

theorem chunk_streamer_collapses_whitespace:
  "concat_deltas (fst (chunk_streamer None (PStr ''a  b''))) = ''a b'' \<and> ''a b'' \<noteq> ''a  b''"
  by (simp add: concat_deltas_streamer str_split_def is_space_def)

subsection \<open>C2: the normaliser's order of cases\<close>

text \<open>
  C2, as far as the code goes. For every backend reply the chain of tests of lines 60 to
  69 (and 160 to 169) gives exactly one outcome. When one of the first three steps
  applies, it returns the value that step picks and raises nothing: a string unchanged,
  else the value of the \<^verbatim>\<open>content\<close> attribute, else the value at the key \<^verbatim>\<open>content\<close> of
  a dict. Otherwise it takes \<^verbatim>\<open>str\<close> of the first element of a non-empty list, else of
  the whole value: it raises what that call raises, and returns its text when it raises
  nothing. A returned value is a string, unless it is the value of the \<^verbatim>\<open>content\<close>
  attribute or key, which is returned as it is.
\<close>

theorem normalize_response_first_match:
  "normalize_response py r =
     (case converted r of
        None \<Rightarrow> Inr (normalizer_steps r)
      | Some x \<Rightarrow> (case str_raises py x of
                    Some e \<Rightarrow> Inl e
                  | None \<Rightarrow> Inr (normalizer_steps r)))
   \<and> (isinstance_str (normalizer_steps r)
        \<or> content_attribute r = Some (normalizer_steps r)
        \<or> content_key r = Some (normalizer_steps r))"
  using normalize_response_outcome normalizer_steps_kind by blast

text \<open>C2 at the reply \<^verbatim>\<open>{"content": "hi there"}\<close>, where the third step applies, and at
  the reply \<^verbatim>\<open>[7, 8]\<close>, where the text of the first element is taken.\<close>

theorem normalize_response_first_match_witness:
  "normalize_response cpython (PDict [(PStr ''content'', PStr ''hi there'')])
     = Inr (PStr ''hi there'')
   \<and> normalize_response cpython (PList [PInt 7, PInt 8]) = Inr (PStr ''7'')"
  using normalize_response_first_match [of cpython "PDict [(PStr ''content'', PStr ''hi there'')]"]
    normalize_response_first_match [of cpython "PList [PInt 7, PInt 8]"]
  by (simp add: normalizer_steps_def converted_def isinstance_str_def content_attribute_def
      content_key_def dict_find_def key_equals_def first_element_def
      too_many_digits_small show_int_def show_nat.simps [of 7] digit_char_def)

text \<open>
  C2 as stated fails in three ways. For the reply \<^verbatim>\<open>{"content": 3}\<close> the normaliser
  returns the integer 3, which is not a string. For the integer \<^verbatim>\<open>10 ** 4300\<close>, under
  the digit limit 4300, it raises ValueError. For the tuple \<^verbatim>\<open>('a', 'b')\<close>, a non-empty
  ordered sequence, it returns the text of the whole tuple and not of its first element.
\<close>

theorem normalize_response_not_string:
  "normalize_response cpython (PDict [(PStr ''content'', PInt 3)]) = Inr (PInt 3)
   \<and> \<not> isinstance_str (PInt 3)
   \<and> normalize_response cpython (PInt (10 ^ 4300)) = Inl (digits_error cpython)
   \<and> normalize_response cpython (PTuple [PStr ''a'', PStr ''b''])
       = Inr (PStr (py_str (PTuple [PStr ''a'', PStr ''b''])))
   \<and> py_str (PTuple [PStr ''a'', PStr ''b'']) \<noteq> py_str (PStr ''a'')"
proof -
  have a: "normalize_response cpython (PDict [(PStr ''content'', PInt 3)]) = Inr (PInt 3)"
    by (simp add: normalize_response_def isinstance_str_def hasattr_def isinstance_dict_def
        dict_contains_def dict_getitem_def dict_find_def key_equals_def)
  have b: "\<not> isinstance_str (PInt 3)"
    by (simp add: isinstance_str_def)
  have "0 < int_max_str_digits cpython"
    by (simp add: cpython_def)
  then have "too_many_digits cpython (10 ^ int_max_str_digits cpython)"
    by (simp add: too_many_digits_def)
  then have big: "too_many_digits cpython (10 ^ 4300)"
    by (simp only: cpython_def interpreter.simps)
  have "str_raises cpython (PInt (10 ^ 4300)) = Some (digits_error cpython)"
    using big by (simp only: str_raises.simps repr_raises.simps if_True)
  moreover have "converted (PInt (10 ^ 4300)) = Some (PInt (10 ^ 4300))"
    by (simp only: converted_def isinstance_str_def content_attribute_def content_key_def
        first_element_def builtin_of.simps find_attr.simps pyval.case simp_thms if_False
        option.case)
  ultimately have c: "normalize_response cpython (PInt (10 ^ 4300)) = Inl (digits_error cpython)"
    by (simp only: normalize_response_outcome option.case)
  have d: "normalize_response cpython (PTuple [PStr ''a'', PStr ''b''])
      = Inr (PStr (py_str (PTuple [PStr ''a'', PStr ''b''])))"
    by (simp add: normalize_response_def isinstance_str_def hasattr_def isinstance_dict_def
        isinstance_list_def str_call_def cpython_def)
  have e: "py_str (PTuple [PStr ''a'', PStr ''b'']) \<noteq> py_str (PStr ''a'')"
    by (simp add: str_repr_def)
  from a b c d e show ?thesis by blast
qed

subsection \<open>C3: the number and the size of the chunks\<close>

text \<open>
  C3. For a canonical text of \<open>n\<close> words the streamer emits \<open>\<lceil>n / 10\<rceil>\<close> content
  chunks; chunk number \<open>k\<close> carries, in order, the words \<open>10 k\<close> to \<open>10 k + 9\<close> of the
  text; the last chunk has \<open>n mod 10\<close> words, or 10 when \<open>n\<close> is a positive multiple of
  10; and the text \<^verbatim>\<open>alpha beta gamma\<close> gives one content chunk with the delta
  \<^verbatim>\<open>alpha beta gamma\<close>.
\<close>

theorem chunk_streamer_grouping:
  "let words = str_split text; n = length words;
       chunks = content_chunks (fst (chunk_streamer m (PStr text)))
   in int (length chunks) = \<lceil>real n / 10\<rceil>
      \<and> (\<forall>k < length chunks.
            delta_content (chunks ! k) = Some (chunk_text_at words (10 * k))
            \<and> str_split (chunk_text_at words (10 * k)) = take 10 (drop (10 * k) words))
      \<and> (0 < n \<longrightarrow> (\<exists>d. delta_content (last chunks) = Some d
            \<and> length (str_split d) = (if n mod 10 = 0 then 10 else n mod 10)))
      \<and> content_chunks (fst (chunk_streamer m (PStr ''alpha beta gamma'')))
          = [Data (chunk_data m ''alpha beta gamma'')]"
proof -
  define words where "words = str_split text"
  define n where "n = length words"
  define chunks where "chunks = content_chunks (fst (chunk_streamer m (PStr text)))"
  have chunks: "chunks = stream_loop m words 0"
    by (simp add: chunks_def words_def content_chunks_streamer)
  have len: "length chunks = (n + 9) div 10"
    by (simp add: chunks length_stream_loop n_def)
  have ws: "\<forall>w \<in> set words. is_word w"
    unfolding words_def by (rule str_split_words)
  have split: "str_split (chunk_text_at words i) = take 10 (drop i words)" for i
    using str_split_chunk_text [OF ws, of i] by (simp add: chunk_size_def)
  have nth: "delta_content (chunks ! k) = Some (chunk_text_at words (10 * k))"
    if "k < length chunks" for k
    using that nth_stream_loop [of k m words 0] by (simp add: chunks chunk_size_def)
  have a: "int (length chunks) = \<lceil>real n / 10\<rceil>"
    by (simp only: len ceiling_div10)
  have b: "\<forall>k < length chunks.
      delta_content (chunks ! k) = Some (chunk_text_at words (10 * k))
      \<and> str_split (chunk_text_at words (10 * k)) = take 10 (drop (10 * k) words)"
    using nth split by blast
  have c: "\<exists>d. delta_content (last chunks) = Some d
      \<and> length (str_split d) = (if n mod 10 = 0 then 10 else n mod 10)" if pos: "0 < n"
  proof -
    from pos have "0 < (n + 9) div 10" by (simp add: div_greater_zero_iff)
    with len have ne: "chunks \<noteq> []" and k: "length chunks - 1 < length chunks" by auto
    from ne have "last chunks = chunks ! (length chunks - 1)" by (rule last_conv_nth)
    with nth [OF k] have d: "delta_content (last chunks)
        = Some (chunk_text_at words (10 * ((n + 9) div 10 - 1)))"
      by (simp add: len)
    have "length (str_split (chunk_text_at words (10 * ((n + 9) div 10 - 1))))
        = min 10 (n - 10 * ((n + 9) div 10 - 1))"
      by (simp add: split n_def min.commute)
    also have "\<dots> = (if n mod 10 = 0 then 10 else n mod 10)"
      using pos by (rule last_group)
    finally show ?thesis using d by blast
  qed
  have e: "content_chunks (fst (chunk_streamer m (PStr ''alpha beta gamma'')))
      = [Data (chunk_data m ''alpha beta gamma'')]"
    by (simp add: content_chunks_streamer str_split_abg stream_loop_abg)
  from a b c e show ?thesis
    unfolding Let_def words_def [symmetric] n_def [symmetric] chunks_def [symmetric]
    by blast
qed

text \<open>C3 at \<^verbatim>\<open>alpha beta gamma\<close>, from the general statement: one chunk, with that
  delta.\<close>

theorem chunk_streamer_grouping_witness:
  "length (content_chunks (fst (chunk_streamer (Some ''phi4:latest'') (PStr ''alpha beta gamma'')))) = 1
   \<and> delta_content (content_chunks
         (fst (chunk_streamer (Some ''phi4:latest'') (PStr ''alpha beta gamma''))) ! 0)
       = Some ''alpha beta gamma''"
  using chunk_streamer_grouping [of "''alpha beta gamma''" "Some ''phi4:latest''"]
  by (simp add: Let_def str_split_abg chunk_text_at_def chunk_size_def)

subsection \<open>C4: how a stream ends\<close>

text \<open>
  C4. When the \<^verbatim>\<open>try\<close> block of the generator ends without an exception, the stream
  is what the block yielded: content chunks only, then one chunk with
  \<^verbatim>\<open>finish_reason\<close> \<^verbatim>\<open>stop\<close> and no delta text, then the frame \<^verbatim>\<open>data: [DONE]\<close>
  followed by two newlines, and nothing more; the stream holds exactly one stop chunk and
  exactly one such sentinel. For the empty canonical text the stream is the stop chunk
  and the sentinel alone.
\<close>

theorem stream_normal_termination:
  assumes "stream_body env messages system m st = ((frames, None), st')"
  shows "generate_stream_response env messages system m st = (frames, st')
         \<and> (\<exists>cs. frames = cs @ [Data (final_chunk m), done_frame]
                \<and> (\<forall>c \<in> set cs. is_content_chunk c))
         \<and> length (filter is_stop_chunk frames) = 1
         \<and> length (filter (\<lambda>f. f = done_frame) frames) = 1
         \<and> is_stop_chunk (Data (final_chunk m))
         \<and> frame_text dumps done_frame = ''data: [DONE]\<newline>\<newline>''
         \<and> chunk_streamer m (PStr []) = ([Data (final_chunk m), done_frame], None)"
proof -
  from assms obtain words
    where frames: "frames = stream_loop m words 0 @ [Data (final_chunk m), done_frame]"
    by (blast dest: stream_body_normal)
  have cs: "\<forall>c \<in> set (stream_loop m words 0). is_content_chunk c"
    by (rule stream_loop_content)
  then have "filter is_stop_chunk (stream_loop m words 0) = []"
    and "filter (\<lambda>f. f = done_frame) (stream_loop m words 0) = []"
    by (auto simp: filter_empty_conv dest: content_not_stop)
  then have one: "length (filter is_stop_chunk frames) = 1"
    and done1: "length (filter (\<lambda>f. f = done_frame) frames) = 1"
    by (simp_all add: frames stop_final done_not_stop final_not_done)
  have gen: "generate_stream_response env messages system m st = (frames, st')"
    using assms by (simp add: generate_stream_response_def)
  have empty: "chunk_streamer m (PStr []) = ([Data (final_chunk m), done_frame], None)"
    by (simp add: chunk_streamer_str str_split_def stream_loop_unfold [of m "[]" 0])
  from gen frames cs one done1 empty show ?thesis
    by (simp add: stop_final done_frame_def del: delta_content_done finish_reason_done)
qed

text \<open>C4 for the request \<^verbatim>\<open>user: Hello\<close> against a backend that echoes the prompt:
  one content chunk, the stop chunk, the sentinel.\<close>

theorem stream_normal_termination_witness:
  "generate_stream_response echo_backend [\<lparr>role = ''user'', content = ''Hello''\<rparr>] None
      (Some ''phi4:latest'') initial_state
   = ([Data (chunk_data (Some ''phi4:latest'') ''Hello''),
       Data (final_chunk (Some ''phi4:latest'')), done_frame],
      \<lparr>chat_client = Some (Handle 0 (Some ''phi4:latest'')),
       current_model = Some ''phi4:latest'', constructed = 1\<rparr>)
   \<and> length (filter is_stop_chunk
        [Data (chunk_data (Some ''phi4:latest'') ''Hello''),
         Data (final_chunk (Some ''phi4:latest'')), done_frame]) = 1"
  using stream_normal_termination [OF stream_body_hello] by blast

subsection \<open>C5: the error frame\<close>

text \<open>
  C5. When the \<^verbatim>\<open>try\<close> block of the generator ends with an exception \<open>e\<close>, whether
  raised by the construction of the client, by \<^verbatim>\<open>client.chat\<close>, by \<^verbatim>\<open>str\<close> in the
  normalisation or by \<^verbatim>\<open>response.split()\<close>, the stream consists of exactly one frame, the error record
  with the message \<^verbatim>\<open>str(e)\<close> and the type \<^verbatim>\<open>server_error\<close>; that frame is no content
  chunk, no stop chunk and not the \<^verbatim>\<open>[DONE]\<close> sentinel, so none of these is emitted.
\<close>

theorem stream_error_termination:
  assumes "stream_body env messages system m st = ((frames, Some e), st')"
  shows "generate_stream_response env messages system m st = ([Data (error_chunk e)], st')
         \<and> error_chunk e = PDict [(PStr ''error'',
               PDict [(PStr ''message'', PStr (exn_str e)), (PStr ''type'', PStr ''server_error'')])]
         \<and> is_error_frame (Data (error_chunk e))
         \<and> \<not> is_stop_chunk (Data (error_chunk e))
         \<and> \<not> is_content_chunk (Data (error_chunk e))
         \<and> Data (error_chunk e) \<noteq> done_frame"
proof -
  from assms have "frames = []" by (rule stream_body_raises_nothing_yielded)
  with assms have "generate_stream_response env messages system m st = ([Data (error_chunk e)], st')"
    by (simp add: generate_stream_response_def)
  moreover have "error_chunk e = PDict [(PStr ''error'',
      PDict [(PStr ''message'', PStr (exn_str e)), (PStr ''type'', PStr ''server_error'')])]"
    by (simp add: error_chunk_def)
  ultimately show ?thesis using error_frame_kind [of e] by blast
qed

text \<open>C5 against a backend whose \<^verbatim>\<open>chat\<close> raises with the message
  \<^verbatim>\<open>connection refused\<close>.\<close>

theorem stream_error_termination_witness:
  "generate_stream_response failing_backend [\<lparr>role = ''user'', content = ''Hello''\<rparr>] None
      (Some ''phi4:latest'') initial_state
   = ([Data (PDict [(PStr ''error'',
          PDict [(PStr ''message'', PStr ''connection refused''),
                 (PStr ''type'', PStr ''server_error'')])])],
      \<lparr>chat_client = Some (Handle 0 (Some ''phi4:latest'')),
       current_model = Some ''phi4:latest'', constructed = 1\<rparr>)"
  using stream_error_termination [OF stream_body_failing] by simp

subsection \<open>C6: the prompt\<close>

text \<open>
  C6, as far as the code goes. The user text is the content of the last message with
  role \<^verbatim>\<open>user\<close>, or empty if there is none. The prompt is the three-part format when
  the system prompt is a non-empty string and the user text is non-empty; the system
  prompt when it is a non-empty string and the user text is empty; the user text
  otherwise. It is the prompt of the specification whenever the system prompt is not
  the empty string and the last user message, if there is one, is not empty.
\<close>

theorem assemble_prompt_cases:
  "assemble_prompt messages system =
     (let user = (case last_user_message messages of None \<Rightarrow> [] | Some u \<Rightarrow> content u)
      in case system of
           None \<Rightarrow> user
         | Some s \<Rightarrow> if s = [] then user
                     else if user = [] then s
                     else s @ ''\<newline>\<newline>User: '' @ user @ ''\<newline>\<newline>Assistant:'')
   \<and> (system \<noteq> Some [] \<and> (\<forall>u. last_user_message messages = Some u \<longrightarrow> content u \<noteq> [])
        \<longrightarrow> assemble_prompt messages system = prompt_as_specified messages system)"
proof -
  define user where
    "user = (case last_user_message messages of None \<Rightarrow> [] | Some u \<Rightarrow> content u)"
  have a: "assemble_prompt messages system =
      (if opt_truthy system \<and> user \<noteq> []
       then opt_text system @ ''\<newline>\<newline>User: '' @ user @ ''\<newline>\<newline>Assistant:''
       else if opt_truthy system then opt_text system else user)"
    using last_user_content [of messages]
    by (simp add: assemble_prompt_def Let_def user_def)
  have first: "assemble_prompt messages system =
      (case system of
         None \<Rightarrow> user
       | Some s \<Rightarrow> if s = [] then user
                   else if user = [] then s
                   else s @ ''\<newline>\<newline>User: '' @ user @ ''\<newline>\<newline>Assistant:'')"
    by (simp add: a opt_truthy_def opt_text_def split: option.splits)
  have second: "assemble_prompt messages system = prompt_as_specified messages system"
    if "system \<noteq> Some []" and "\<forall>u. last_user_message messages = Some u \<longrightarrow> content u \<noteq> []"
    using that
    by (auto simp: first prompt_as_specified_def user_def split: option.splits)
  from first second show ?thesis
    unfolding Let_def user_def by blast
qed

text \<open>C6 for a conversation with two user messages and the system prompt
  \<^verbatim>\<open>Be brief\<close>: the last user message is taken, and code and specification agree.\<close>

theorem assemble_prompt_cases_witness:
  "assemble_prompt [\<lparr>role = ''system'', content = ''ignored''\<rparr>,
                    \<lparr>role = ''user'', content = ''first''\<rparr>,
                    \<lparr>role = ''assistant'', content = ''reply''\<rparr>,
                    \<lparr>role = ''user'', content = ''Hello''\<rparr>] (Some ''Be brief'')
   = ''Be brief\<newline>\<newline>User: Hello\<newline>\<newline>Assistant:''
   \<and> prompt_as_specified [\<lparr>role = ''system'', content = ''ignored''\<rparr>,
                    \<lparr>role = ''user'', content = ''first''\<rparr>,
                    \<lparr>role = ''assistant'', content = ''reply''\<rparr>,
                    \<lparr>role = ''user'', content = ''Hello''\<rparr>] (Some ''Be brief'')
   = ''Be brief\<newline>\<newline>User: Hello\<newline>\<newline>Assistant:''"
  using assemble_prompt_cases [of "[\<lparr>role = ''system'', content = ''ignored''\<rparr>,
                    \<lparr>role = ''user'', content = ''first''\<rparr>,
                    \<lparr>role = ''assistant'', content = ''reply''\<rparr>,
                    \<lparr>role = ''user'', content = ''Hello''\<rparr>]" "Some ''Be brief''"]
  by (simp add: last_user_message_def prompt_as_specified_def)

text \<open>C6 as stated fails: with the system prompt \<^verbatim>\<open>S\<close> and one user message whose
  content is empty, a user message exists, yet the prompt is \<^verbatim>\<open>S\<close> and not the
  three-part format.\<close>

theorem assemble_prompt_empty_user_message:
  "assemble_prompt [\<lparr>role = ''user'', content = []\<rparr>] (Some ''S'') = ''S''
   \<and> prompt_as_specified [\<lparr>role = ''user'', content = []\<rparr>] (Some ''S'')
       = ''S\<newline>\<newline>User: \<newline>\<newline>Assistant:''
   \<and> assemble_prompt [\<lparr>role = ''user'', content = []\<rparr>] (Some ''S'')
       \<noteq> prompt_as_specified [\<lparr>role = ''user'', content = []\<rparr>] (Some ''S'')"
  by (simp add: assemble_prompt_def opt_truthy_def opt_text_def prompt_as_specified_def
      last_user_message_def)

subsection \<open>C7: the empty sequence\<close>

text \<open>
  C7. For an empty list (an instance of \<^verbatim>\<open>list\<close> of length 0 without a \<^verbatim>\<open>content\<close>
  attribute) the normaliser does not fail: it returns the text of the whole value, as
  its last step does, although reading the element at index 0 of that value raises
  IndexError.
\<close>

theorem normalize_response_empty_sequence:
  assumes "builtin_of r = PList []" and "\<not> hasattr r ''content''"
  shows "normalize_response py r = Inr (PStr (py_str r))
         \<and> list_getitem r 0 = Inl (IndexError ''list index out of range'')"
proof -
  from assms(1) have "str_raises py r = None"
    by (cases r) simp_all
  with assms show ?thesis
    by (simp add: normalize_response_def isinstance_str_def isinstance_dict_def
        isinstance_list_def py_len_def list_getitem_def str_call_def)
qed

text \<open>C7 at \<^verbatim>\<open>[]\<close>: the canonical text is the two characters \<^verbatim>\<open>[]\<close>.\<close>

theorem normalize_response_empty_sequence_witness:
  "builtin_of (PList []) = PList [] \<and> \<not> hasattr (PList []) ''content''
   \<and> normalize_response cpython (PList []) = Inr (PStr ''[]'')
   \<and> list_getitem (PList []) 0 = Inl (IndexError ''list index out of range'')"
  using normalize_response_empty_sequence [of "PList []" cpython]
  by (simp add: hasattr_def)

subsection \<open>C8: the client cache\<close>

text \<open>
  C8. Whenever \<^verbatim>\<open>get_chat_client(m)\<close> returns a client, a second call with the same
  \<open>m\<close> returns the same client and leaves the state as it is, the count of constructed
  clients included; the first call has constructed at most one client; and after either
  call the stored model name is \<open>m\<close> and the stored client is the one returned.
\<close>

theorem get_chat_client_twice:
  assumes "get_chat_client env m st = Inr (h, st1)"
  shows "get_chat_client env m st1 = Inr (h, st1)
         \<and> chat_client st1 = Some h \<and> current_model st1 = m
         \<and> (constructed st1 = constructed st \<or> constructed st1 = constructed st + 1)"
  using assms
  by (auto simp: get_chat_client_def replace_client_def ChatOllama_def
      split: option.splits if_splits sum.splits prod.splits)

text \<open>C8 from the initial state with the model \<^verbatim>\<open>phi4:latest\<close>: the first call
  constructs client number 0, the second returns it again.\<close>

theorem get_chat_client_twice_witness:
  "get_chat_client echo_backend (Some ''phi4:latest'') initial_state
     = Inr (Handle 0 (Some ''phi4:latest''),
            \<lparr>chat_client = Some (Handle 0 (Some ''phi4:latest'')),
             current_model = Some ''phi4:latest'', constructed = 1\<rparr>)
   \<and> get_chat_client echo_backend (Some ''phi4:latest'')
        \<lparr>chat_client = Some (Handle 0 (Some ''phi4:latest'')),
         current_model = Some ''phi4:latest'', constructed = 1\<rparr>
     = Inr (Handle 0 (Some ''phi4:latest''),
            \<lparr>chat_client = Some (Handle 0 (Some ''phi4:latest'')),
             current_model = Some ''phi4:latest'', constructed = 1\<rparr>)"
proof -
  have first: "get_chat_client echo_backend (Some ''phi4:latest'') initial_state
     = Inr (Handle 0 (Some ''phi4:latest''),
            \<lparr>chat_client = Some (Handle 0 (Some ''phi4:latest'')),
             current_model = Some ''phi4:latest'', constructed = 1\<rparr>)"
    by (simp add: get_chat_client_def replace_client_def ChatOllama_def echo_backend_def
        initial_state_def)
  from get_chat_client_twice [OF first] first show ?thesis by simp
qed

subsection \<open>C9: the non-streaming response\<close>

text \<open>
  C9. A request with \<^verbatim>\<open>stream=false\<close> that does not raise returns one
  \<^verbatim>\<open>ChatResponse\<close> whose \<^verbatim>\<open>choices\<close> has exactly one entry, with \<^verbatim>\<open>finish_reason\<close>
  \<^verbatim>\<open>stop\<close> and, as message content, the normalised reply of the backend to the
  assembled prompt; for the single message \<^verbatim>\<open>user: Hello\<close> and no system prompt that
  prompt is \<^verbatim>\<open>Hello\<close>.
\<close>

theorem chat_completions_non_streaming:
  assumes "\<not> req_stream request"
    and "chat_completions env request st = (res, st')"
    and "\<not> raises res"
  shows "(\<exists>client raw response name.
            get_chat_client env (req_model request) st = Inr (client, st')
            \<and> chat_result env client
                 (assemble_prompt (req_messages request) (req_system request)) = Inr raw
            \<and> normalize_response (python env) raw = Inr response
            \<and> req_model request = Some name
            \<and> res = Completion
                 \<lparr>resp_id = ''chatcmpl-ollama'',
                  resp_object = ''chat.completion'',
                  resp_created = 1234567890,
                  resp_model = name,
                  resp_choices =
                    [PDict [(PStr ''index'', PInt 0),
                            (PStr ''message'', PDict [(PStr ''role'', PStr ''assistant''),
                                                      (PStr ''content'', response)]),
                            (PStr ''finish_reason'', PStr ''stop'')]]\<rparr>)
         \<and> assemble_prompt [\<lparr>role = ''user'', content = ''Hello''\<rparr>] None = ''Hello''"
proof -
  have hello: "assemble_prompt [\<lparr>role = ''user'', content = ''Hello''\<rparr>] None = ''Hello''"
    by (simp add: assemble_prompt_def opt_truthy_def)
  from assms have "\<exists>client raw response name.
      get_chat_client env (req_model request) st = Inr (client, st')
      \<and> chat_result env client
           (assemble_prompt (req_messages request) (req_system request)) = Inr raw
      \<and> normalize_response (python env) raw = Inr response
      \<and> req_model request = Some name
      \<and> res = Completion
           \<lparr>resp_id = ''chatcmpl-ollama'',
            resp_object = ''chat.completion'',
            resp_created = 1234567890,
            resp_model = name,
            resp_choices =
              [PDict [(PStr ''index'', PInt 0),
                      (PStr ''message'', PDict [(PStr ''role'', PStr ''assistant''),
                                                (PStr ''content'', response)]),
                      (PStr ''finish_reason'', PStr ''stop'')]]\<rparr>"
    by (auto simp: chat_completions_def new_ChatResponse_def raises_def
        split: sum.splits prod.splits option.splits)
  with hello show ?thesis by blast
qed

text \<open>C9 for the request \<^verbatim>\<open>user: Hello\<close> against a backend that echoes the
  prompt.\<close>

theorem chat_completions_non_streaming_witness:
  "\<exists>client raw response.
     get_chat_client echo_backend (Some ''phi4:latest'') initial_state
       = Inr (client, \<lparr>chat_client = Some (Handle 0 (Some ''phi4:latest'')),
                       current_model = Some ''phi4:latest'', constructed = 1\<rparr>)
     \<and> chat_result echo_backend client ''Hello'' = Inr raw
     \<and> normalize_response (python echo_backend) raw = Inr response
     \<and> response = PStr ''Hello''"
proof -
  let ?request = "\<lparr>req_messages = [\<lparr>role = ''user'', content = ''Hello''\<rparr>], req_system = None,
       req_model = Some ''phi4:latest'', req_stream = False, req_max_tokens = None,
       req_temperature = None\<rparr>"
  have s: "\<not> req_stream ?request" by simp
  have r: "\<not> raises (Completion
        \<lparr>resp_id = ''chatcmpl-ollama'',
         resp_object = ''chat.completion'',
         resp_created = 1234567890,
         resp_model = ''phi4:latest'',
         resp_choices =
           [PDict [(PStr ''index'', PInt 0),
                   (PStr ''message'', PDict [(PStr ''role'', PStr ''assistant''),
                                             (PStr ''content'', PStr ''Hello'')]),
                   (PStr ''finish_reason'', PStr ''stop'')]]\<rparr>)"
    by (simp add: raises_def)
  from chat_completions_non_streaming [OF s chat_completions_hello r]
  show ?thesis by (auto simp: assemble_prompt_def opt_truthy_def)
qed

subsection \<open>C10: the framing fields\<close>

text \<open>
  C10. Every frame of every stream is the sentinel, or the error frame, or a content or
  stop chunk that carries the identifier \<^verbatim>\<open>chatcmpl-ollama\<close> and the creation time
  1234567890; so does every \<^verbatim>\<open>ChatResponse\<close> of the non-streaming path. Both are
  literals of the code, the same for every request, model and state.
\<close>

theorem framing_fields_constant:
  "(\<forall>f \<in> set (fst (generate_stream_response env messages system m st)). well_framed f)
   \<and> (\<forall>frames st'. chat_completions env request st = (StreamingResponse frames, st')
         \<longrightarrow> (\<forall>f \<in> set frames. well_framed f))
   \<and> (\<forall>r st'. chat_completions env request st = (Completion r, st')
         \<longrightarrow> resp_id r = ''chatcmpl-ollama'' \<and> resp_created r = 1234567890)"
proof (intro conjI allI impI)
  show "\<forall>f \<in> set (fst (generate_stream_response env messages system m st)). well_framed f"
    by (rule well_framed_stream)
next
  fix frames st'
  assume "chat_completions env request st = (StreamingResponse frames, st')"
  then have "frames = fst (generate_stream_response env (req_messages request)
      (req_system request) (req_model request) st)"
    by (auto simp: chat_completions_def split: if_splits prod.splits sum.splits)
  then show "\<forall>f \<in> set frames. well_framed f"
    by (simp add: well_framed_stream)
next
  fix r st'
  assume "chat_completions env request st = (Completion r, st')"
  then show "resp_id r = ''chatcmpl-ollama''" and "resp_created r = 1234567890"
    by (auto simp: chat_completions_def new_ChatResponse_def
        split: if_splits prod.splits sum.splits option.splits)
qed

text \<open>C10 for the stream and the response of the request \<^verbatim>\<open>user: Hello\<close>.\<close>

theorem framing_fields_constant_witness:
  "carries_framing (Data (chunk_data (Some ''phi4:latest'') ''Hello''))
   \<and> carries_framing (Data (final_chunk (Some ''phi4:latest'')))
   \<and> resp_id \<lparr>resp_id = ''chatcmpl-ollama'',
         resp_object = ''chat.completion'',
         resp_created = 1234567890,
         resp_model = ''phi4:latest'',
         resp_choices =
           [PDict [(PStr ''index'', PInt 0),
                   (PStr ''message'', PDict [(PStr ''role'', PStr ''assistant''),
                                             (PStr ''content'', PStr ''Hello'')]),
                   (PStr ''finish_reason'', PStr ''stop'')]]\<rparr> = ''chatcmpl-ollama''"
proof -
  let ?m = "Some ''phi4:latest''"
  let ?msgs = "[\<lparr>role = ''user'', content = ''Hello''\<rparr>]"
  have g: "fst (generate_stream_response echo_backend ?msgs None ?m initial_state)
      = [Data (chunk_data ?m ''Hello''), Data (final_chunk ?m), done_frame]"
    by (simp add: generate_stream_response_def stream_body_hello)
  from framing_fields_constant [of echo_backend ?msgs None ?m initial_state]
  have "\<forall>f \<in> set [Data (chunk_data ?m ''Hello''), Data (final_chunk ?m), done_frame].
      well_framed f"
    unfolding g by blast
  then have "well_framed (Data (chunk_data ?m ''Hello''))" "well_framed (Data (final_chunk ?m))"
    by simp_all
  then show ?thesis
    by (simp add: well_framed_def is_error_frame_def done_frame_def chunk_data_def
        final_chunk_def carries_framing_def)
qed

end
